theory Spec2Isabelle
  imports Complex_Main
begin

section \<open>Numbers and vectors\<close>

text \<open>
  The TypeScript sources compute with \<^verbatim>\<open>number\<close>, the IEEE 754 doubles. The embedding reads a
  finite number as a real: rounding, overflow and underflow are left out, so every equation
  below is one of exact arithmetic. A division by zero does not throw in the source: it
  yields an infinite or NaN value that every later operation carries along. The embedding
  writes that outcome as \<open>None\<close> at the place of the division, so a vector of the core is a
  \<open>Vector3 option\<close> wherever a division stands between the input and the result.
\<close>

datatype Vector3 = Vector3 (vx: real) (vy: real) (vz: real)

text \<open>
  The methods of the rendering library's vector class that the core calls:
  \<^verbatim>\<open>length()\<close>, \<^verbatim>\<open>dot(v)\<close>, \<^verbatim>\<open>multiplyScalar(s)\<close>, \<^verbatim>\<open>divideScalar(s)\<close>
  (multiplication by \<open>1 / s\<close>) and \<^verbatim>\<open>normalize()\<close>, which is
  \<^verbatim>\<open>divideScalar(this.length() || 1)\<close>: a zero vector is divided by one.
\<close>

definition length3 :: "Vector3 \<Rightarrow> real" where
  "length3 v = sqrt (vx v * vx v + vy v * vy v + vz v * vz v)"

definition dot :: "Vector3 \<Rightarrow> Vector3 \<Rightarrow> real" where
  "dot u v = vx u * vx v + vy u * vy v + vz u * vz v"

definition multiplyScalar :: "Vector3 \<Rightarrow> real \<Rightarrow> Vector3" where
  "multiplyScalar v s = Vector3 (vx v * s) (vy v * s) (vz v * s)"

definition divideScalar :: "Vector3 \<Rightarrow> real \<Rightarrow> Vector3" where
  "divideScalar v s = multiplyScalar v (1 / s)"

definition normalize :: "Vector3 \<Rightarrow> Vector3" where
  "normalize v = divideScalar v (if length3 v = 0 then 1 else length3 v)"

text \<open>The quotient of two finite numbers: \<open>None\<close> is the infinite or NaN value of a zero divisor.\<close>

definition js_div :: "real \<Rightarrow> real \<Rightarrow> real option" where
  "js_div p q = (if q = 0 then None else Some (p / q))"

section \<open>Data model (src/types.ts)\<close>

record OrbitalElements =
  a :: real
  e :: real
  i :: real
  omega :: real
  raan :: real
  nu :: real

datatype ParameterKey = A | E | I | OMEGA | RAAN | NU

section \<open>Orbital frame transform (src/utils/orbitalMath.ts)\<close>

definition degToRad :: "real \<Rightarrow> real" where
  "degToRad deg = deg * (pi / 180)"

definition radToDeg :: "real \<Rightarrow> real" where
  "radToDeg rad = rad * (180 / pi)"

definition perifocalToThree :: "real \<Rightarrow> real \<Rightarrow> real \<Rightarrow> OrbitalElements \<Rightarrow> Vector3" where
  "perifocalToThree x_orb y_orb z_orb elements =
    (let cos_O = cos (raan elements);
         sin_O = sin (raan elements);
         cos_w = cos (omega elements);
         sin_w = sin (omega elements);
         cos_i = cos (i elements);
         sin_i = sin (i elements);
         xx = cos_O * cos_w - sin_O * sin_w * cos_i;
         xy = - cos_O * sin_w - sin_O * cos_w * cos_i;
         xz = sin_O * sin_i;
         yx = sin_O * cos_w + cos_O * sin_w * cos_i;
         yy = - sin_O * sin_w + cos_O * cos_w * cos_i;
         yz = - cos_O * sin_i;
         zx = sin_w * sin_i;
         zy = cos_w * sin_i;
         zz = cos_i;
         X = xx * x_orb + xy * y_orb + xz * z_orb;
         Y = yx * x_orb + yy * y_orb + yz * z_orb;
         Z = zx * x_orb + zy * y_orb + zz * z_orb
     in Vector3 X Z (- Y))"

section \<open>Position and path generator (src/utils/orbitalMath.ts)\<close>

text \<open>
  \<^verbatim>\<open>Math.PI\<close> is the double nearest to \<open>\<pi>\<close>, the rational number \<open>884279719003555 / 2\<^sup>4\<^sup>8\<close>. The
  path generator takes the cosine and the sine at multiples of it, so its model keeps the
  constant. Where the sources only scale a value by \<^verbatim>\<open>Math.PI / 180\<close>, degrees to radians, the
  embedding reads the constant as \<open>\<pi>\<close>.
\<close>

definition MATH_PI :: real where
  "MATH_PI = 884279719003555 / 281474976710656"

text \<open>The optional argument \<^verbatim>\<open>anomaly?\<close> is a \<open>real option\<close>: \<open>None\<close> is \<^verbatim>\<open>undefined\<close>.\<close>

definition calculatePosition :: "OrbitalElements \<Rightarrow> real option \<Rightarrow> Vector3 option" where
  "calculatePosition elements anomaly =
    (let nu = (case anomaly of Some v \<Rightarrow> v | None \<Rightarrow> nu elements)
     in case js_div (a elements * (1 - e elements * e elements)) (1 + e elements * cos nu) of
          None \<Rightarrow> None
        | Some r \<Rightarrow>
            (let x_orb = r * cos nu;
                 y_orb = r * sin nu;
                 z_orb = 0
             in Some (perifocalToThree x_orb y_orb z_orb elements)))"

text \<open>
  The body of the loop of \<^verbatim>\<open>generateOrbitPath\<close> for the counter \<open>j\<close>, and the loop itself:
  \<^verbatim>\<open>for (let j = 0; j <= segments; j++)\<close>, pushing one point per round.
\<close>

definition path_point :: "OrbitalElements \<Rightarrow> real \<Rightarrow> nat \<Rightarrow> Vector3 option" where
  "path_point elements segments j =
    (case js_div (real j) segments of
       None \<Rightarrow> None
     | Some q \<Rightarrow> calculatePosition elements (Some (q * 2 * MATH_PI)))"

function path_loop :: "OrbitalElements \<Rightarrow> real \<Rightarrow> nat \<Rightarrow> Vector3 option list \<Rightarrow> Vector3 option list" where
  "path_loop elements segments j points =
    (if real j \<le> segments
     then path_loop elements segments (Suc j) (points @ [path_point elements segments j])
     else points)"
  by pat_completeness auto
termination
proof (relation "measure (\<lambda>(elements, segments, j, points). nat (\<lfloor>segments\<rfloor> + 1 - int j))")
  show "wf (measure (\<lambda>(elements, segments, j, points). nat (\<lfloor>segments\<rfloor> + 1 - int j)))"
    by simp
next
  fix elements :: OrbitalElements and segments :: real and j :: nat and points :: "Vector3 option list"
  assume "real j \<le> segments"
  then have "int j \<le> \<lfloor>segments\<rfloor>"
    by (simp add: le_floor_iff)
  then show "((elements, segments, Suc j, points @ [path_point elements segments j]),
              (elements, segments, j, points))
             \<in> measure (\<lambda>(elements, segments, j, points). nat (\<lfloor>segments\<rfloor> + 1 - int j))"
    by simp
qed

declare path_loop.simps [simp del]

text \<open>The default \<^verbatim>\<open>segments = 200\<close> is taken when the argument is \<open>None\<close>.\<close>

definition generateOrbitPath :: "OrbitalElements \<Rightarrow> real option \<Rightarrow> Vector3 option list" where
  "generateOrbitPath elements segments =
     path_loop elements (case segments of Some s \<Rightarrow> s | None \<Rightarrow> 200) 0 []"

section \<open>Geometric reference vectors (src/utils/orbitalMath.ts)\<close>

definition getNodeVector :: "OrbitalElements \<Rightarrow> Vector3" where
  "getNodeVector elements = normalize (Vector3 (cos (raan elements)) 0 (- sin (raan elements)))"

definition getPerigeeVector :: "OrbitalElements \<Rightarrow> Vector3 option" where
  "getPerigeeVector elements = map_option normalize (calculatePosition elements (Some 0))"

definition getOrbitNormal :: "OrbitalElements \<Rightarrow> Vector3" where
  "getOrbitNormal elements = normalize (perifocalToThree 0 0 1 elements)"

section \<open>Element state (src/App.tsx)\<close>

definition INITIAL_ELEMENTS :: OrbitalElements where
  "INITIAL_ELEMENTS =
     \<lparr> a = 8, e = 0.4, i = 45 * (pi / 180), omega = 45 * (pi / 180), raan = 30 * (pi / 180), nu = 0 \<rparr>"

fun handleUpdateElement :: "ParameterKey \<Rightarrow> real \<Rightarrow> OrbitalElements \<Rightarrow> OrbitalElements" where
  "handleUpdateElement A v prev = prev\<lparr>a := v\<rparr>"
| "handleUpdateElement E v prev = prev\<lparr>e := v\<rparr>"
| "handleUpdateElement I v prev = prev\<lparr>i := v\<rparr>"
| "handleUpdateElement OMEGA v prev = prev\<lparr>omega := v\<rparr>"
| "handleUpdateElement RAAN v prev = prev\<lparr>raan := v\<rparr>"
| "handleUpdateElement NU v prev = prev\<lparr>nu := v\<rparr>"

definition handleReset :: "OrbitalElements \<Rightarrow> OrbitalElements" where
  "handleReset prev = INITIAL_ELEMENTS"

section \<open>Singularity flags and sliders (Controls component)\<close>

definition isCircular :: "OrbitalElements \<Rightarrow> bool" where
  "isCircular elements = (e elements < 0.01)"

definition isEquatorial :: "OrbitalElements \<Rightarrow> bool" where
  "isEquatorial elements = (i elements < 0.01 * (pi / 180))"

text \<open>
  The six sliders of the component, one per parameter: the \<^verbatim>\<open>min\<close> and \<^verbatim>\<open>max\<close>
  attributes of the range input, its \<^verbatim>\<open>disabled\<close> attribute, and its \<^verbatim>\<open>onChange\<close> handler,
  which converts the angular sliders from degrees before it calls \<^verbatim>\<open>onUpdate\<close>.
\<close>

fun slider_min :: "ParameterKey \<Rightarrow> real" where
  "slider_min A = 4"
| "slider_min E = 0"
| "slider_min I = 0"
| "slider_min RAAN = 0"
| "slider_min OMEGA = 0"
| "slider_min NU = 0"

fun slider_max :: "ParameterKey \<Rightarrow> real" where
  "slider_max A = 15"
| "slider_max E = 0.85"
| "slider_max I = 180"
| "slider_max RAAN = 360"
| "slider_max OMEGA = 360"
| "slider_max NU = 360"

fun slider_disabled :: "ParameterKey \<Rightarrow> OrbitalElements \<Rightarrow> bool" where
  "slider_disabled RAAN elements = isEquatorial elements"
| "slider_disabled OMEGA elements = isCircular elements"
| "slider_disabled A elements = False"
| "slider_disabled E elements = False"
| "slider_disabled I elements = False"
| "slider_disabled NU elements = False"

fun slider_onChange :: "ParameterKey \<Rightarrow> real \<Rightarrow> OrbitalElements \<Rightarrow> OrbitalElements" where
  "slider_onChange A v elements = handleUpdateElement A v elements"
| "slider_onChange E v elements = handleUpdateElement E v elements"
| "slider_onChange I v elements = handleUpdateElement I (v * (pi / 180)) elements"
| "slider_onChange RAAN v elements = handleUpdateElement RAAN (v * (pi / 180)) elements"
| "slider_onChange OMEGA v elements = handleUpdateElement OMEGA (v * (pi / 180)) elements"
| "slider_onChange NU v elements = handleUpdateElement NU (v * (pi / 180)) elements"

text \<open>
  The element records the application can hold: the initial record, a record after an
  enabled slider has emitted a value of its range, and the record after a reset.
\<close>

inductive reachable :: "OrbitalElements \<Rightarrow> bool" where
  init: "reachable INITIAL_ELEMENTS"
| update: "reachable elements \<Longrightarrow> \<not> slider_disabled k elements \<Longrightarrow>
           slider_min k \<le> v \<Longrightarrow> v \<le> slider_max k \<Longrightarrow> reachable (slider_onChange k v elements)"
| reset: "reachable elements \<Longrightarrow> reachable (handleReset elements)"

section \<open>The rotation as the specification words it\<close>

text \<open>
  The elementary rotations about the third and the first axis, their 3-1-3 composition with
  the angles \<open>\<Omega>\<close>, \<open>i\<close>, \<open>\<omega>\<close>, the composed matrix row by row, and the relabeling of the
  physics axes into the rendering axes.
\<close>

definition rotate_z :: "real \<Rightarrow> Vector3 \<Rightarrow> Vector3" where
  "rotate_z t v = Vector3 (cos t * vx v - sin t * vy v) (sin t * vx v + cos t * vy v) (vz v)"

definition rotate_x :: "real \<Rightarrow> Vector3 \<Rightarrow> Vector3" where
  "rotate_x t v = Vector3 (vx v) (cos t * vy v - sin t * vz v) (sin t * vy v + cos t * vz v)"

definition euler313 :: "OrbitalElements \<Rightarrow> Vector3 \<Rightarrow> Vector3" where
  "euler313 elements v = rotate_z (raan elements) (rotate_x (i elements) (rotate_z (omega elements) v))"

definition euler313_matrix :: "OrbitalElements \<Rightarrow> Vector3 \<Rightarrow> Vector3" where
  "euler313_matrix elements v =
     Vector3
       ((cos (raan elements) * cos (omega elements) - sin (raan elements) * sin (omega elements) * cos (i elements)) * vx v
        + (- cos (raan elements) * sin (omega elements) - sin (raan elements) * cos (omega elements) * cos (i elements)) * vy v
        + (sin (raan elements) * sin (i elements)) * vz v)
       ((sin (raan elements) * cos (omega elements) + cos (raan elements) * sin (omega elements) * cos (i elements)) * vx v
        + (- sin (raan elements) * sin (omega elements) + cos (raan elements) * cos (omega elements) * cos (i elements)) * vy v
        + (- cos (raan elements) * sin (i elements)) * vz v)
       ((sin (omega elements) * sin (i elements)) * vx v
        + (cos (omega elements) * sin (i elements)) * vy v
        + cos (i elements) * vz v)"

definition physicsToThree :: "Vector3 \<Rightarrow> Vector3" where
  "physicsToThree v = Vector3 (vx v) (vz v) (- vy v)"

text \<open>
  The point of the conic at an anomaly, in the perifocal frame: \<open>(r cos \<nu>, r sin \<nu>, 0)\<close> with
  \<open>r = a (1 - e\<^sup>2) / (1 + e cos \<nu>)\<close>, and no finite point when the divisor is zero.
\<close>

definition perifocal_point :: "OrbitalElements \<Rightarrow> real \<Rightarrow> Vector3 option" where
  "perifocal_point elements t =
     map_option (\<lambda>r. Vector3 (r * cos t) (r * sin t) 0)
       (js_div (a elements * (1 - e elements * e elements)) (1 + e elements * cos t))"

section \<open>Facts about vectors and the frame transform\<close>

lemma perifocalToThree_matrix:
  "perifocalToThree x_orb y_orb z_orb elements =
     physicsToThree (euler313_matrix elements (Vector3 x_orb y_orb z_orb))"
  by (simp add: perifocalToThree_def physicsToThree_def euler313_matrix_def Let_def)

lemma euler313_matrix_composed: "euler313_matrix elements v = euler313 elements v"
  by (simp add: euler313_matrix_def euler313_def rotate_z_def rotate_x_def algebra_simps)

lemma plane_rotation_products:
  "(c * p - s * q) * (c * p' - s * q') + (s * p + c * q) * (s * p' + c * q')
     = (c * c + s * s) * (p * p' + q * (q'::real))"
  by (simp add: algebra_simps)

lemma rotation_plane_dot:
  "(cos t * p - sin t * q) * (cos t * p' - sin t * q') + (sin t * p + cos t * q) * (sin t * p' + cos t * q')
     = p * p' + q * (q'::real)"
  by (simp only: plane_rotation_products sin_cos_squared_add3 mult_1)

lemma dot_rotate_z: "dot (rotate_z t u) (rotate_z t v) = dot u v"
  by (simp add: dot_def rotate_z_def rotation_plane_dot)

lemma dot_rotate_x: "dot (rotate_x t u) (rotate_x t v) = dot u v"
  by (simp add: dot_def rotate_x_def add.assoc rotation_plane_dot)

lemma dot_physicsToThree: "dot (physicsToThree u) (physicsToThree v) = dot u v"
  by (simp add: dot_def physicsToThree_def)

lemma dot_euler313: "dot (euler313 elements u) (euler313 elements v) = dot u v"
  by (simp add: euler313_def dot_rotate_z dot_rotate_x)

lemma dot_perifocalToThree:
  "dot (perifocalToThree x y z elements) (perifocalToThree x' y' z' elements) = x * x' + y * y' + z * z'"
  by (simp add: perifocalToThree_matrix dot_physicsToThree euler313_matrix_composed dot_euler313)
     (simp add: dot_def)


lemma normalize_unit: "length3 v = 1 \<Longrightarrow> normalize v = v"
  by (simp add: normalize_def divideScalar_def multiplyScalar_def)


lemma conic_denominator_pos:
  assumes "0 \<le> e elements" and "e elements < 1"
  shows "0 < 1 + e elements * cos t"
proof -
  have "e elements * (- 1) \<le> e elements * cos t"
    using assms(1) by (intro mult_left_mono) simp_all
  with assms(2) show ?thesis by simp
qed

lemma conic_radius_pos:
  assumes "0 < a elements" and "0 \<le> e elements" and "e elements < 1"
  shows "0 < a elements * (1 - e elements * e elements) / (1 + e elements * cos t)"
proof -
  have "e elements * e elements < 1 * 1"
    using assms(2,3) by (intro mult_strict_mono') simp_all
  then have "0 < a elements * (1 - e elements * e elements)"
    using assms(1) by simp
  then show ?thesis
    using conic_denominator_pos [OF assms(2,3), of t] by simp
qed

lemma calculatePosition_valid:
  assumes "0 \<le> e elements" and "e elements < 1"
  shows "calculatePosition elements anomaly =
           Some (perifocalToThree
             (a elements * (1 - e elements * e elements)
                / (1 + e elements * cos (case anomaly of Some t \<Rightarrow> t | None \<Rightarrow> nu elements))
                * cos (case anomaly of Some t \<Rightarrow> t | None \<Rightarrow> nu elements))
             (a elements * (1 - e elements * e elements)
                / (1 + e elements * cos (case anomaly of Some t \<Rightarrow> t | None \<Rightarrow> nu elements))
                * sin (case anomaly of Some t \<Rightarrow> t | None \<Rightarrow> nu elements))
             0 elements)"
  using conic_denominator_pos [OF assms, of "case anomaly of Some t \<Rightarrow> t | None \<Rightarrow> nu elements"]
  by (simp add: calculatePosition_def js_div_def Let_def)

section \<open>The points of the path\<close>

lemma path_loop_nth:
  "k < length (path_loop elements segments j points) \<Longrightarrow>
     path_loop elements segments j points ! k
       = (if k < length points then points ! k
          else path_point elements segments (j + (k - length points)))"
proof (induction elements segments j points rule: path_loop.induct)
  case (1 elements segments j points)
  show ?case
  proof (cases "real j \<le> segments")
    case True
    have step: "path_loop elements segments j points
                  = path_loop elements segments (Suc j) (points @ [path_point elements segments j])"
      using True by (subst path_loop.simps) simp
    with "1.prems"
    have "k < length (path_loop elements segments (Suc j) (points @ [path_point elements segments j]))"
      by simp
    from "1.IH" [OF True this]
    have "path_loop elements segments (Suc j) (points @ [path_point elements segments j]) ! k
            = (if k < length (points @ [path_point elements segments j])
               then (points @ [path_point elements segments j]) ! k
               else path_point elements segments
                      (Suc j + (k - length (points @ [path_point elements segments j]))))" .
    moreover have "Suc j + (k - Suc (length points)) = j + (k - length points)"
      if "\<not> k < Suc (length points)"
      using that by simp
    ultimately show ?thesis
      unfolding step by (auto simp: nth_append less_Suc_eq)
  next
    case False
    then have "path_loop elements segments j points = points"
      by (subst path_loop.simps) simp
    with "1.prems" show ?thesis by simp
  qed
qed

lemma generateOrbitPath_nth:
  assumes "k < length (generateOrbitPath elements segments)"
  shows "generateOrbitPath elements segments ! k
           = path_point elements (case segments of Some s \<Rightarrow> s | None \<Rightarrow> 200) k"
  using assms path_loop_nth [of k elements "case segments of Some s \<Rightarrow> s | None \<Rightarrow> 200" 0 "[]"]
  by (simp add: generateOrbitPath_def)

lemma path_loop_unroll:
  "j \<le> Suc N \<Longrightarrow>
     path_loop elements (real N) j points = points @ map (path_point elements (real N)) [j..<Suc N]"
proof (induction "Suc N - j" arbitrary: j points)
  case 0
  then have "j = Suc N" by simp
  then have "\<not> real j \<le> real N" by simp
  then have "path_loop elements (real N) j points = points"
    by (subst path_loop.simps) simp
  with \<open>j = Suc N\<close> show ?case by simp
next
  case (Suc k)
  then have "j \<le> N" by simp
  then have "real j \<le> real N" by simp
  then have "path_loop elements (real N) j points
               = path_loop elements (real N) (Suc j) (points @ [path_point elements (real N) j])"
    by (subst path_loop.simps) simp
  also have "\<dots> = (points @ [path_point elements (real N) j])
                      @ map (path_point elements (real N)) [Suc j..<Suc N]"
    using Suc.hyps(2) \<open>j \<le> N\<close> by (intro Suc.hyps(1)) simp_all
  also have "\<dots> = points @ map (path_point elements (real N)) [j..<Suc N]"
    using \<open>j \<le> N\<close> by (simp add: upt_conv_Cons del: upt_Suc)
  finally show ?case .
qed

lemma length_generateOrbitPath:
  "length (generateOrbitPath elements (Some (real N))) = N + 1"
  using path_loop_unroll [of 0 N elements "[]"] by (simp add: generateOrbitPath_def)

lemma path_point_anomaly:
  assumes "1 \<le> N"
  shows "path_point elements (real N) j
           = calculatePosition elements (Some (real j / real N * 2 * MATH_PI))"
proof -
  have nz: "(real N = 0) = False"
    using assms by simp
  show ?thesis
    unfolding path_point_def js_div_def by (simp only: nz if_False option.case)
qed

lemma calculatePosition_relabelled:
  "calculatePosition elements anomaly
     = map_option (\<lambda>p. physicsToThree (euler313_matrix elements p))
         (perifocal_point elements (case anomaly of Some t \<Rightarrow> t | None \<Rightarrow> nu elements))"
  by (simp add: calculatePosition_def perifocal_point_def js_div_def Let_def perifocalToThree_matrix)

lemma getPerigeeVector_relabelled:
  "getPerigeeVector elements
     = map_option (\<lambda>p. normalize (physicsToThree (euler313_matrix elements p)))
         (perifocal_point elements 0)"
  by (simp add: getPerigeeVector_def calculatePosition_relabelled option.map_comp comp_def)

lemma path_point_relabelled:
  "path_point elements segments k
     = (case js_div (real k) segments of
          None \<Rightarrow> None
        | Some q \<Rightarrow> map_option (\<lambda>p. physicsToThree (euler313_matrix elements p))
                      (perifocal_point elements (q * 2 * MATH_PI)))"
  by (simp add: path_point_def calculatePosition_relabelled split: option.split)

section \<open>The frame transform as a rotation and a relabeling\<close>

text \<open>
  Claim C1. For every point and every elements record, \<open>perifocalToThree\<close> is the composed
  3-1-3 matrix, with the rows the specification lists, applied to the point, followed by the
  relabeling of the physics vector \<open>(X, Y, Z)\<close> into the render vector \<open>(X, Z, -Y)\<close>. The matrix
  is the composition of the rotation by \<open>\<omega>\<close> about the third axis, by \<open>i\<close> about the first and by
  \<open>\<Omega>\<close> about the third. The same relabeling stands in every vector the core produces: the node
  vector is the relabeled \<open>(cos \<Omega>, sin \<Omega>, 0)\<close> and the orbit normal the relabeled rotation of
  \<open>(0, 0, 1)\<close>, both normalized; a position is the relabeled rotation of the perifocal point
  of the conic at its anomaly, the perigee vector that of the point at anomaly zero,
  normalized, and the point of index \<open>k\<close> of a path that of the point at anomaly
  \<open>(k / segments) \<times> 2 \<times> Math.PI\<close>.
\<close>

theorem perifocalToThree_is_euler313_then_relabel:
  "perifocalToThree x_orb y_orb z_orb elements
      = physicsToThree (euler313_matrix elements (Vector3 x_orb y_orb z_orb))
   \<and> euler313_matrix elements v = euler313 elements v
   \<and> physicsToThree (Vector3 X Y Z) = Vector3 X Z (- Y)
   \<and> getNodeVector elements
        = normalize (physicsToThree (Vector3 (cos (raan elements)) (sin (raan elements)) 0))
   \<and> getOrbitNormal elements = normalize (physicsToThree (euler313_matrix elements (Vector3 0 0 1)))
   \<and> calculatePosition elements anomaly
        = map_option (\<lambda>p. physicsToThree (euler313_matrix elements p))
            (perifocal_point elements (case anomaly of Some t \<Rightarrow> t | None \<Rightarrow> nu elements))
   \<and> getPerigeeVector elements
        = map_option (\<lambda>p. normalize (physicsToThree (euler313_matrix elements p)))
            (perifocal_point elements 0)
   \<and> (k < length (generateOrbitPath elements segments) \<longrightarrow>
        generateOrbitPath elements segments ! k
          = (case js_div (real k) (case segments of Some s \<Rightarrow> s | None \<Rightarrow> 200) of
               None \<Rightarrow> None
             | Some q \<Rightarrow> map_option (\<lambda>p. physicsToThree (euler313_matrix elements p))
                           (perifocal_point elements (q * 2 * MATH_PI))))"
proof (intro conjI impI)
  show "perifocalToThree x_orb y_orb z_orb elements
      = physicsToThree (euler313_matrix elements (Vector3 x_orb y_orb z_orb))"
    by (rule perifocalToThree_matrix)
  show "euler313_matrix elements v = euler313 elements v"
    by (rule euler313_matrix_composed)
  show "physicsToThree (Vector3 X Y Z) = Vector3 X Z (- Y)"
    by (simp add: physicsToThree_def)
  show "getNodeVector elements
        = normalize (physicsToThree (Vector3 (cos (raan elements)) (sin (raan elements)) 0))"
    by (simp add: getNodeVector_def physicsToThree_def)
  show "getOrbitNormal elements = normalize (physicsToThree (euler313_matrix elements (Vector3 0 0 1)))"
    by (simp add: getOrbitNormal_def perifocalToThree_matrix)
  show "calculatePosition elements anomaly
        = map_option (\<lambda>p. physicsToThree (euler313_matrix elements p))
            (perifocal_point elements (case anomaly of Some t \<Rightarrow> t | None \<Rightarrow> nu elements))"
    by (rule calculatePosition_relabelled)
  show "getPerigeeVector elements
        = map_option (\<lambda>p. normalize (physicsToThree (euler313_matrix elements p)))
            (perifocal_point elements 0)"
    by (rule getPerigeeVector_relabelled)
next
  assume "k < length (generateOrbitPath elements segments)"
  then show "generateOrbitPath elements segments ! k
          = (case js_div (real k) (case segments of Some s \<Rightarrow> s | None \<Rightarrow> 200) of
               None \<Rightarrow> None
             | Some q \<Rightarrow> map_option (\<lambda>p. physicsToThree (euler313_matrix elements p))
                           (perifocal_point elements (q * 2 * MATH_PI)))"
    by (simp only: generateOrbitPath_nth path_point_relabelled)
qed

theorem perifocalToThree_is_euler313_then_relabel_witness:
  "2 < length (generateOrbitPath
                \<lparr>a = 10, e = 1 / 2, i = pi / 2, omega = pi / 2, raan = pi / 2, nu = 0\<rparr> (Some 2))
   \<and> generateOrbitPath \<lparr>a = 10, e = 1 / 2, i = pi / 2, omega = pi / 2, raan = pi / 2, nu = 0\<rparr>
         (Some 2) ! 0
       = Some (Vector3 0 5 0)
   \<and> perifocalToThree 1 2 3 \<lparr>a = 10, e = 1 / 2, i = pi / 2, omega = pi / 2, raan = pi / 2, nu = 0\<rparr>
       = Vector3 3 1 2"
proof -
  let ?els = "\<lparr>a = 10, e = 1 / 2, i = pi / 2, omega = pi / 2, raan = pi / 2, nu = 0\<rparr>"
  have len: "length (generateOrbitPath ?els (Some 2)) = 3"
    using length_generateOrbitPath [of ?els 2] by simp
  then have "0 < length (generateOrbitPath ?els (Some 2))"
    by simp
  with perifocalToThree_is_euler313_then_relabel [of 1 2 3 ?els _ _ _ _ _ 0 "Some 2"]
  show ?thesis
    using len
    by (simp add: js_div_def perifocal_point_def physicsToThree_def euler313_matrix_def)
qed

section \<open>The position on the conic\<close>

text \<open>
  Claim C2. For every elements record with \<open>a > 0\<close> and \<open>0 \<le> e < 1\<close>, and an anomaly that is supplied
  or not, \<open>calculatePosition\<close> takes \<open>\<nu>\<close> to be the anomaly when supplied and the field \<open>nu\<close>
  otherwise, computes \<open>r = a (1 - e\<^sup>2) / (1 + e cos \<nu>)\<close> with a divisor that is not zero, and
  returns \<open>perifocalToThree\<close> at the perifocal point \<open>(r cos \<nu>, r sin \<nu>, 0)\<close>.
\<close>

theorem calculatePosition_conic:
  assumes "0 < a elements" and "0 \<le> e elements" and "e elements < 1"
  shows "1 + e elements * cos (case anomaly of Some t \<Rightarrow> t | None \<Rightarrow> nu elements) \<noteq> 0
    \<and> calculatePosition elements anomaly =
      (let t = (case anomaly of Some t \<Rightarrow> t | None \<Rightarrow> nu elements);
           r = a elements * (1 - (e elements)\<^sup>2) / (1 + e elements * cos t)
       in Some (perifocalToThree (r * cos t) (r * sin t) 0 elements))"
  using conic_denominator_pos [OF assms(2,3), of "case anomaly of Some t \<Rightarrow> t | None \<Rightarrow> nu elements"]
    calculatePosition_valid [OF assms(2,3), of anomaly]
  by (simp add: Let_def power2_eq_square)

theorem calculatePosition_conic_witness:
  "0 < a \<lparr>a = 8, e = 2 / 5, i = 0, omega = 0, raan = 0, nu = 0\<rparr>
   \<and> 0 \<le> e \<lparr>a = 8, e = 2 / 5, i = 0, omega = 0, raan = 0, nu = 0\<rparr>
   \<and> e \<lparr>a = 8, e = 2 / 5, i = 0, omega = 0, raan = 0, nu = 0\<rparr> < 1
   \<and> calculatePosition \<lparr>a = 8, e = 2 / 5, i = 0, omega = 0, raan = 0, nu = 0\<rparr> (Some pi)
        = Some (Vector3 (- (56 / 5)) 0 0)
   \<and> calculatePosition \<lparr>a = 8, e = 2 / 5, i = 0, omega = 0, raan = 0, nu = 0\<rparr> None
        = Some (Vector3 (24 / 5) 0 0)"
  using calculatePosition_conic [of "\<lparr>a = 8, e = 2 / 5, i = 0, omega = 0, raan = 0, nu = 0\<rparr>" "Some pi"]
    calculatePosition_conic [of "\<lparr>a = 8, e = 2 / 5, i = 0, omega = 0, raan = 0, nu = 0\<rparr>" None]
  by (simp add: perifocalToThree_def Let_def power2_eq_square)

section \<open>The orbit path\<close>

text \<open>
  \<^verbatim>\<open>Math.PI\<close> lies below \<open>\<pi>\<close>: the sine of a sixth of it, bounded by its Taylor polynomial of
  degree 15 and the remainder of order 17, is below one half, the sine of \<open>\<pi>/6\<close>.
\<close>

lemma sum_less_17:
  "(\<Sum>m<17. f m) = f 0 + f (Suc 0) + f 2 + f 3 + f 4 + f 5 + f 6 + f 7 + f 8 + f 9 + f 10
      + f 11 + f 12 + f 13 + f 14 + f 15 + (f (16::nat) :: real)"
  by (simp add: lessThan_nat_numeral lessThan_Suc)

lemma sin_coeff_even_values:
  "sin_coeff 2 = 0" "sin_coeff 4 = 0" "sin_coeff 6 = 0" "sin_coeff 8 = 0"
  "sin_coeff 10 = 0" "sin_coeff 12 = 0" "sin_coeff 14 = 0" "sin_coeff 16 = 0"
  by (simp_all add: sin_coeff_def)

lemma sin_coeff_odd_values:
  "sin_coeff (Suc 0) = 1" "sin_coeff 3 = - (1 / 6)" "sin_coeff 5 = 1 / 120"
  "sin_coeff 7 = - (1 / 5040)" "sin_coeff 9 = 1 / 362880" "sin_coeff 11 = - (1 / 39916800)"
  "sin_coeff 13 = 1 / 6227020800" "sin_coeff 15 = - (1 / 1307674368000)"
  by (simp_all add: sin_coeff_def fact_numeral)

lemma sin_taylor17:
  fixes x :: real
  assumes "0 \<le> x"
  shows "sin x \<le> x - x ^ 3 / 6 + x ^ 5 / 120 - x ^ 7 / 5040 + x ^ 9 / 362880
           - x ^ 11 / 39916800 + x ^ 13 / 6227020800 - x ^ 15 / 1307674368000
           + x ^ 17 / 355687428096000"
proof -
  have "(\<Sum>m<17. sin_coeff m * x ^ m)
          = sin_coeff 0 * x ^ 0 + sin_coeff (Suc 0) * x ^ Suc 0 + sin_coeff 2 * x ^ 2
            + sin_coeff 3 * x ^ 3 + sin_coeff 4 * x ^ 4 + sin_coeff 5 * x ^ 5
            + sin_coeff 6 * x ^ 6 + sin_coeff 7 * x ^ 7 + sin_coeff 8 * x ^ 8
            + sin_coeff 9 * x ^ 9 + sin_coeff 10 * x ^ 10 + sin_coeff 11 * x ^ 11
            + sin_coeff 12 * x ^ 12 + sin_coeff 13 * x ^ 13 + sin_coeff 14 * x ^ 14
            + sin_coeff 15 * x ^ 15 + sin_coeff 16 * x ^ 16"
    by (rule sum_less_17)
  also have "\<dots> = x - x ^ 3 / 6 + x ^ 5 / 120 - x ^ 7 / 5040 + x ^ 9 / 362880
           - x ^ 11 / 39916800 + x ^ 13 / 6227020800 - x ^ 15 / 1307674368000"
    by (simp only: sin_coeff_even_values sin_coeff_odd_values sin_coeff_0) simp
  finally have poly: "(\<Sum>m<17. sin_coeff m * x ^ m)
      = x - x ^ 3 / 6 + x ^ 5 / 120 - x ^ 7 / 5040 + x ^ 9 / 362880
           - x ^ 11 / 39916800 + x ^ 13 / 6227020800 - x ^ 15 / 1307674368000" .
  have "fact 17 = (355687428096000::real)"
    by (simp add: fact_numeral)
  moreover have "\<bar>x\<bar> = x"
    using assms by simp
  ultimately have "inverse (fact 17) * \<bar>x\<bar> ^ 17 = x ^ 17 / 355687428096000"
    by (simp add: inverse_eq_divide)
  then have "\<bar>sin x - (x - x ^ 3 / 6 + x ^ 5 / 120 - x ^ 7 / 5040 + x ^ 9 / 362880
           - x ^ 11 / 39916800 + x ^ 13 / 6227020800 - x ^ 15 / 1307674368000)\<bar>
        \<le> x ^ 17 / 355687428096000"
    using Maclaurin_sin_bound [of x 17] by (simp only: poly)
  then show ?thesis
    by linarith
qed

lemma sin_MATH_PI_sixth: "sin (MATH_PI / 6) < 1 / 2"
proof -
  have "0 \<le> MATH_PI / 6"
    by (simp add: MATH_PI_def)
  from sin_taylor17 [OF this]
  have "sin (MATH_PI / 6) \<le> MATH_PI / 6 - (MATH_PI / 6) ^ 3 / 6 + (MATH_PI / 6) ^ 5 / 120
           - (MATH_PI / 6) ^ 7 / 5040 + (MATH_PI / 6) ^ 9 / 362880
           - (MATH_PI / 6) ^ 11 / 39916800 + (MATH_PI / 6) ^ 13 / 6227020800
           - (MATH_PI / 6) ^ 15 / 1307674368000 + (MATH_PI / 6) ^ 17 / 355687428096000" .
  also have "\<dots> < 1 / 2"
    unfolding MATH_PI_def by (simp add: power_divide)
  finally show ?thesis .
qed

lemma MATH_PI_less_pi: "MATH_PI < pi"
proof (rule ccontr)
  assume "\<not> MATH_PI < pi"
  then have le: "pi / 6 \<le> MATH_PI / 6"
    by simp
  have "MATH_PI / 6 \<le> 1"
    by (simp add: MATH_PI_def)
  then have "MATH_PI / 6 \<le> pi / 2"
    using pi_ge_two by linarith
  moreover have "- (pi / 2) \<le> pi / 6"
    using pi_ge_zero by linarith
  ultimately have "sin (pi / 6) \<le> sin (MATH_PI / 6)"
    using le by (intro sin_monotone_2pi_le) simp_all
  then show False
    using sin_MATH_PI_sixth by (simp add: sin_30)
qed

lemma sin_two_MATH_PI: "sin (2 * MATH_PI) < 0"
proof -
  have "pi < 2 * MATH_PI"
    using pi_less_4 by (simp add: MATH_PI_def)
  moreover have "2 * MATH_PI < 2 * pi"
    using MATH_PI_less_pi by simp
  ultimately show ?thesis
    by (rule sin_lt_zero)
qed

text \<open>The frame transform is one to one, and so the two ends of a path are told apart.\<close>

lemma perifocalToThree_inject:
  assumes "perifocalToThree x y z elements = perifocalToThree x' y' z' elements"
  shows "x = x' \<and> y = y' \<and> z = z'"
proof -
  have "dot (perifocalToThree x y z elements) (perifocalToThree u v w elements)
          = dot (perifocalToThree x' y' z' elements) (perifocalToThree u v w elements)" for u v w
    by (simp only: assms)
  then have eq: "x * u + y * v + z * w = x' * u + y' * v + z' * w" for u v w
    by (simp only: dot_perifocalToThree)
  from eq [of 1 0 0] eq [of 0 1 0] eq [of 0 0 1] show ?thesis
    by simp
qed

lemma path_not_closed:
  assumes "0 < a elements" and "0 \<le> e elements" and "e elements < 1"
  shows "calculatePosition elements (Some 0) \<noteq> calculatePosition elements (Some (2 * MATH_PI))"
proof
  let ?r0 = "a elements * (1 - e elements * e elements) / (1 + e elements * cos 0)"
  let ?r1 = "a elements * (1 - e elements * e elements) / (1 + e elements * cos (2 * MATH_PI))"
  assume "calculatePosition elements (Some 0) = calculatePosition elements (Some (2 * MATH_PI))"
  then have "perifocalToThree (?r0 * cos 0) (?r0 * sin 0) 0 elements
               = perifocalToThree (?r1 * cos (2 * MATH_PI)) (?r1 * sin (2 * MATH_PI)) 0 elements"
    using calculatePosition_valid [OF assms(2,3), of "Some 0"]
      calculatePosition_valid [OF assms(2,3), of "Some (2 * MATH_PI)"]
    by simp
  then have "?r0 * sin 0 = ?r1 * sin (2 * MATH_PI)"
    by (blast dest: perifocalToThree_inject)
  then have zero: "?r1 * sin (2 * MATH_PI) = 0"
    by simp
  have "0 < ?r1"
    using assms by (rule conic_radius_pos)
  then have "?r1 * sin (2 * MATH_PI) < 0"
    using sin_two_MATH_PI by (rule mult_pos_neg)
  with zero show False
    by (simp only: less_irrefl)
qed

lemma generateOrbitPath_point:
  assumes "1 \<le> N" and "j \<le> N"
  shows "generateOrbitPath elements (Some (real N)) ! j
           = calculatePosition elements (Some (real j / real N * 2 * MATH_PI))"
proof -
  have "j < length (generateOrbitPath elements (Some (real N)))"
    using assms(2) by (simp add: length_generateOrbitPath)
  then have "generateOrbitPath elements (Some (real N)) ! j = path_point elements (real N) j"
    using generateOrbitPath_nth [of j elements "Some (real N)"] by simp
  then show ?thesis
    by (simp only: path_point_anomaly [OF assms(1)])
qed

lemma generateOrbitPath_ends:
  assumes "1 \<le> N"
  shows "generateOrbitPath elements (Some (real N)) ! 0 = calculatePosition elements (Some 0)"
    and "generateOrbitPath elements (Some (real N)) ! N = calculatePosition elements (Some (2 * MATH_PI))"
  using assms generateOrbitPath_point [OF assms, of 0 elements]
    generateOrbitPath_point [OF assms, of N elements]
  by simp_all

lemma generateOrbitPath_default:
  "generateOrbitPath elements None = generateOrbitPath elements (Some (real 200))"
  by (simp add: generateOrbitPath_def)

text \<open>
  Claim C5, as the code has it. For every elements record and every segment count \<open>N \<ge> 1\<close>,
  \<open>generateOrbitPath elements N\<close> returns \<open>N + 1\<close> points, and the point of index \<open>j \<le> N\<close> is
  \<open>calculatePosition elements ((j / N) \<times> 2 \<times> Math.PI)\<close>: the first is the position at anomaly
  zero and the last the position at anomaly \<open>2 \<times> Math.PI\<close>, which lies below \<open>2 \<pi>\<close>. Without a
  segment count the path is the one for \<open>200\<close> segments, of \<open>201\<close> points. The path is a
  function of the record and the count alone.
\<close>

theorem generateOrbitPath_points:
  "(1 \<le> N \<longrightarrow>
     length (generateOrbitPath elements (Some (real N))) = N + 1
     \<and> (\<forall>j. j \<le> N \<longrightarrow> generateOrbitPath elements (Some (real N)) ! j
                          = calculatePosition elements (Some (real j / real N * 2 * MATH_PI)))
     \<and> generateOrbitPath elements (Some (real N)) ! 0 = calculatePosition elements (Some 0)
     \<and> generateOrbitPath elements (Some (real N)) ! N
          = calculatePosition elements (Some (2 * MATH_PI)))
   \<and> generateOrbitPath elements None = generateOrbitPath elements (Some (real 200))
   \<and> length (generateOrbitPath elements None) = 201
   \<and> 2 * MATH_PI < 2 * pi"
proof (intro conjI impI allI)
  show "length (generateOrbitPath elements (Some (real N))) = N + 1"
    by (rule length_generateOrbitPath)
  show "generateOrbitPath elements (Some (real N)) ! j
          = calculatePosition elements (Some (real j / real N * 2 * MATH_PI))"
    if "1 \<le> N" and "j \<le> N" for j
    using that by (rule generateOrbitPath_point)
  show "generateOrbitPath elements (Some (real N)) ! 0 = calculatePosition elements (Some 0)"
    if "1 \<le> N"
    using that by (rule generateOrbitPath_ends)
  show "generateOrbitPath elements (Some (real N)) ! N = calculatePosition elements (Some (2 * MATH_PI))"
    if "1 \<le> N"
    using that by (rule generateOrbitPath_ends)
  show "generateOrbitPath elements None = generateOrbitPath elements (Some (real 200))"
    by (rule generateOrbitPath_default)
  show "length (generateOrbitPath elements None) = 201"
    by (simp only: generateOrbitPath_default length_generateOrbitPath)
  show "2 * MATH_PI < 2 * pi"
    using MATH_PI_less_pi by simp
qed

theorem generateOrbitPath_points_witness:
  "1 \<le> (2::nat) \<and> (1::nat) \<le> 2
   \<and> length (generateOrbitPath
                \<lparr>a = 10, e = 1 / 2, i = pi / 2, omega = pi / 2, raan = pi / 2, nu = 0\<rparr>
                (Some (real 2))) = 3
   \<and> generateOrbitPath \<lparr>a = 10, e = 1 / 2, i = pi / 2, omega = pi / 2, raan = pi / 2, nu = 0\<rparr>
         (Some (real 2)) ! 1
       = calculatePosition \<lparr>a = 10, e = 1 / 2, i = pi / 2, omega = pi / 2, raan = pi / 2, nu = 0\<rparr>
           (Some MATH_PI)
   \<and> generateOrbitPath \<lparr>a = 10, e = 1 / 2, i = pi / 2, omega = pi / 2, raan = pi / 2, nu = 0\<rparr>
         (Some (real 2)) ! 0
       = Some (Vector3 0 5 0)"
proof -
  let ?els = "\<lparr>a = 10, e = 1 / 2, i = pi / 2, omega = pi / 2, raan = pi / 2, nu = 0\<rparr>"
  have "calculatePosition ?els (Some 0) = Some (Vector3 0 5 0)"
    by (simp add: calculatePosition_def js_div_def perifocalToThree_def Let_def)
  then show ?thesis
    using generateOrbitPath_points [of 2 ?els] by simp
qed

text \<open>
  On the initial elements and the default count, the last point of the path is not the first:
  the sine of \<open>2 \<times> Math.PI\<close> is not zero.
\<close>

theorem generateOrbitPath_not_closed_counterexample:
  "generateOrbitPath INITIAL_ELEMENTS None ! 0 \<noteq> generateOrbitPath INITIAL_ELEMENTS None ! 200"
proof -
  have "calculatePosition INITIAL_ELEMENTS (Some 0)
          \<noteq> calculatePosition INITIAL_ELEMENTS (Some (2 * MATH_PI))"
    by (rule path_not_closed) (simp_all add: INITIAL_ELEMENTS_def)
  moreover have "generateOrbitPath INITIAL_ELEMENTS (Some (real 200)) ! 0
                   = calculatePosition INITIAL_ELEMENTS (Some 0)"
    by (rule generateOrbitPath_ends) simp
  moreover have "generateOrbitPath INITIAL_ELEMENTS (Some (real 200)) ! 200
                   = calculatePosition INITIAL_ELEMENTS (Some (2 * MATH_PI))"
    by (rule generateOrbitPath_ends) simp
  ultimately show ?thesis
    by (simp add: generateOrbitPath_default)
qed

section \<open>The orbit normal\<close>








section \<open>The ascending node\<close>

lemma node_axis_unit: "length3 (Vector3 (cos t) 0 (- sin t)) = 1"
  by (simp add: length3_def)

lemma getNodeVector_components:
  "getNodeVector elements = Vector3 (cos (raan elements)) 0 (- sin (raan elements))"
  by (simp add: getNodeVector_def normalize_unit node_axis_unit)

text \<open>
  Claim C9. The vector that \<open>getNodeVector\<close> normalizes has length one, so the normalization
  divides by one and the result is the finite unit vector \<open>(cos \<Omega>, 0, -sin \<Omega>)\<close>. When \<open>i = 0\<close>
  the flag \<open>isEquatorial\<close> holds; at \<open>\<Omega> = 0\<close> the vector is the first axis of the frame. Two
  records with the same \<open>\<Omega>\<close> have the same node vector, whatever their other fields are.
\<close>

theorem getNodeVector_only_raan:
  "length3 (Vector3 (cos (raan elements)) 0 (- sin (raan elements))) = 1
   \<and> getNodeVector elements = Vector3 (cos (raan elements)) 0 (- sin (raan elements))
   \<and> length3 (getNodeVector elements) = 1
   \<and> (i elements = 0 \<longrightarrow> isEquatorial elements)
   \<and> (raan elements = 0 \<longrightarrow> getNodeVector elements = Vector3 1 0 0)
   \<and> (raan elements = raan elements' \<longrightarrow> getNodeVector elements = getNodeVector elements')"
  by (simp add: getNodeVector_components node_axis_unit isEquatorial_def)

theorem getNodeVector_only_raan_witness:
  "i \<lparr>a = 10, e = 0, i = 0, omega = 0, raan = 0, nu = pi / 2\<rparr> = 0
   \<and> raan \<lparr>a = 10, e = 0, i = 0, omega = 0, raan = 0, nu = pi / 2\<rparr> = 0
   \<and> raan \<lparr>a = 10, e = 0, i = 0, omega = 0, raan = 0, nu = pi / 2\<rparr>
       = raan \<lparr>a = 8, e = 2 / 5, i = 1, omega = 2, raan = 0, nu = 3\<rparr>
   \<and> isEquatorial \<lparr>a = 10, e = 0, i = 0, omega = 0, raan = 0, nu = pi / 2\<rparr>
   \<and> getNodeVector \<lparr>a = 10, e = 0, i = 0, omega = 0, raan = 0, nu = pi / 2\<rparr> = Vector3 1 0 0
   \<and> getNodeVector \<lparr>a = 8, e = 2 / 5, i = 1, omega = 2, raan = 0, nu = 3\<rparr> = Vector3 1 0 0"
  using getNodeVector_only_raan [of "\<lparr>a = 10, e = 0, i = 0, omega = 0, raan = 0, nu = pi / 2\<rparr>"
      "\<lparr>a = 8, e = 2 / 5, i = 1, omega = 2, raan = 0, nu = 3\<rparr>"]
  by auto

section \<open>The singularity flags\<close>

lemma isEquatorial_degrees: "isEquatorial elements \<longleftrightarrow> radToDeg (i elements) < 0.01"
  by (simp add: isEquatorial_def radToDeg_def field_simps)

text \<open>Bounds on \<open>\<pi>\<close> from the Taylor polynomial of the sine at \<open>\<pi>/6\<close>, for the threshold in radians.\<close>

lemma sum_less_five: "(\<Sum>m<5. f m) = f 0 + f (Suc 0) + f 2 + f 3 + (f (4::nat) :: real)"
proof -
  have "{..<5::nat} = {0, Suc 0, 2, 3, 4}"
    by auto
  then show ?thesis
    by simp
qed

lemma sin_coeff_values:
  "sin_coeff (Suc 0) = 1" "sin_coeff 2 = 0" "sin_coeff 3 = - (1 / 6)" "sin_coeff 4 = 0"
  by (simp_all add: sin_coeff_def fact_numeral)

lemma sin_taylor5:
  fixes x :: real
  assumes "0 \<le> x"
  shows "\<bar>sin x - (x - x ^ 3 / 6)\<bar> \<le> x ^ 5 / 120"
proof -
  have "(\<Sum>m<5. sin_coeff m * x ^ m)
          = sin_coeff 0 * x ^ 0 + sin_coeff (Suc 0) * x ^ Suc 0 + sin_coeff 2 * x ^ 2
            + sin_coeff 3 * x ^ 3 + sin_coeff 4 * x ^ 4"
    by (rule sum_less_five)
  also have "\<dots> = x - x ^ 3 / 6"
    by (simp only: sin_coeff_values sin_coeff_0) simp
  finally have poly: "(\<Sum>m<5. sin_coeff m * x ^ m) = x - x ^ 3 / 6" .
  have "fact 5 = (120::real)"
    by (simp add: fact_numeral)
  moreover have "\<bar>x\<bar> = x"
    using assms by simp
  ultimately have "inverse (fact 5) * \<bar>x\<bar> ^ 5 = x ^ 5 / 120"
    by (simp add: inverse_eq_divide)
  then show ?thesis
    using Maclaurin_sin_bound [of x 5] by (simp only: poly)
qed

lemma sin_step_upper:
  fixes x c :: real
  assumes "0 \<le> x" and "x \<le> c" and "sin x = 1 / 2"
  shows "x * (1 - c\<^sup>2 / 6 - c ^ 4 / 120) \<le> 1 / 2"
proof -
  have "x\<^sup>2 \<le> c\<^sup>2" "x ^ 4 \<le> c ^ 4"
    using assms(1,2) by (simp_all add: power_mono)
  then have "x * x\<^sup>2 \<le> x * c\<^sup>2" "x * x ^ 4 \<le> x * c ^ 4"
    using assms(1) by (simp_all add: mult_left_mono)
  moreover have "x * x\<^sup>2 = x ^ 3" "x * x ^ 4 = x ^ 5"
    by (simp_all add: eval_nat_numeral)
  ultimately have "x ^ 3 \<le> x * c\<^sup>2" "x ^ 5 \<le> x * c ^ 4"
    by simp_all
  moreover have "x - x ^ 3 / 6 - x ^ 5 / 120 \<le> 1 / 2"
    using sin_taylor5 [OF assms(1)] assms(3) by linarith
  moreover have "x * (1 - c\<^sup>2 / 6 - c ^ 4 / 120) = x - x * c\<^sup>2 / 6 - x * c ^ 4 / 120"
    by (simp add: algebra_simps)
  ultimately show ?thesis
    by linarith
qed

lemma sin_step_lower:
  fixes x l u :: real
  assumes "0 \<le> l" and "l \<le> x" and "x \<le> u" and "sin x = 1 / 2"
  shows "1 / 2 \<le> x * (1 - l\<^sup>2 / 6 + u ^ 4 / 120)"
proof -
  have x: "0 \<le> x" using assms(1,2) by simp
  have "l\<^sup>2 \<le> x\<^sup>2" "x ^ 4 \<le> u ^ 4"
    using assms(1,2,3) x by (simp_all add: power_mono)
  then have "x * l\<^sup>2 \<le> x * x\<^sup>2" "x * x ^ 4 \<le> x * u ^ 4"
    using x by (simp_all add: mult_left_mono)
  moreover have "x * x\<^sup>2 = x ^ 3" "x * x ^ 4 = x ^ 5"
    by (simp_all add: eval_nat_numeral)
  ultimately have "x * l\<^sup>2 \<le> x ^ 3" "x ^ 5 \<le> x * u ^ 4"
    by simp_all
  moreover have "1 / 2 \<le> x - x ^ 3 / 6 + x ^ 5 / 120"
    using sin_taylor5 [OF x] assms(4) by linarith
  moreover have "x * (1 - l\<^sup>2 / 6 + u ^ 4 / 120) = x - x * l\<^sup>2 / 6 + x * u ^ 4 / 120"
    by (simp add: algebra_simps)
  ultimately show ?thesis
    by linarith
qed

lemma pi_less_315: "pi < 315 / 100"
proof -
  have s: "sin (pi / 6) = 1 / 2" by (rule sin_30)
  have p: "0 \<le> pi / 6" by simp
  have "pi / 6 \<le> 2 / 3"
    using pi_less_4 by simp
  from sin_step_upper [OF p this s] have "pi / 6 \<le> 542 / 1000"
    by (simp add: power2_eq_square eval_nat_numeral)
  from sin_step_upper [OF p this s] have "pi / 6 \<le> 5262 / 10000"
    by (simp add: power2_eq_square eval_nat_numeral)
  from sin_step_upper [OF p this s] have "pi / 6 < 525 / 1000"
    by (simp add: power2_eq_square eval_nat_numeral)
  then show ?thesis by simp
qed

lemma pi_greater_314: "314 / 100 < pi"
proof -
  have s: "sin (pi / 6) = 1 / 2" by (rule sin_30)
  have u: "pi / 6 \<le> 525 / 1000"
    using pi_less_315 by simp
  have "1 / 2 \<le> pi / 6"
    using sin_x_le_x [of "pi / 6"] s by simp
  from sin_step_lower [OF _ this u s] have "5213 / 10000 \<le> pi / 6"
    by (simp add: power2_eq_square eval_nat_numeral)
  from sin_step_lower [OF _ this u s] have "5233334 / 10000000 < pi / 6"
    by (simp add: power2_eq_square eval_nat_numeral)
  then show ?thesis by simp
qed

lemma equatorial_threshold_bounds:
  "174 / 1000000 < 0.01 * (pi / 180)" "0.01 * (pi / 180) < 175 / 1000000"
  using pi_greater_314 pi_less_315 by simp_all

text \<open>
  Claim C6. \<open>isCircular\<close> holds exactly when \<open>e < 0.01\<close>, and \<open>isEquatorial\<close> exactly when
  \<open>i < 0.01 \<pi> / 180\<close>, that is when the inclination in degrees is below \<open>0.01\<close>. Each flag is a
  function of the current record alone, and of one field of it: no other field changes it.
  The threshold of \<open>isEquatorial\<close> in radians lies between \<open>1.74 \<times> 10\<^sup>-\<^sup>4\<close> and \<open>1.75 \<times> 10\<^sup>-\<^sup>4\<close>.
\<close>

theorem singularity_flags:
  "isCircular elements = (e elements < 0.01)
   \<and> isEquatorial elements = (i elements < 0.01 * pi / 180)
   \<and> isEquatorial elements = (radToDeg (i elements) < 0.01)
   \<and> isCircular (elements\<lparr>a := x1, i := x2, omega := x3, raan := x4, nu := x5\<rparr>) = isCircular elements
   \<and> isEquatorial (elements\<lparr>a := x1, e := x2, omega := x3, raan := x4, nu := x5\<rparr>) = isEquatorial elements
   \<and> 174 / 1000000 < 0.01 * (pi / 180) \<and> 0.01 * (pi / 180) < 175 / 1000000"
  using isEquatorial_degrees [of elements] equatorial_threshold_bounds
  by (simp add: isCircular_def isEquatorial_def)

section \<open>The domain of the elements\<close>

lemma slider_onChange_domain:
  assumes "slider_min k \<le> v" and "v \<le> slider_max k"
    and "4 \<le> a elements \<and> a elements \<le> 15 \<and> 0 \<le> e elements \<and> e elements \<le> 0.85"
  shows "4 \<le> a (slider_onChange k v elements) \<and> a (slider_onChange k v elements) \<le> 15
         \<and> 0 \<le> e (slider_onChange k v elements) \<and> e (slider_onChange k v elements) \<le> 0.85"
  using assms by (cases k) simp_all

lemma reachable_domain:
  "reachable elements \<Longrightarrow>
     4 \<le> a elements \<and> a elements \<le> 15 \<and> 0 \<le> e elements \<and> e elements \<le> 0.85"
proof (induction rule: reachable.induct)
  case init
  show ?case by (simp add: INITIAL_ELEMENTS_def)
next
  case (update elements k v)
  then show ?case by (intro slider_onChange_domain)
next
  case (reset elements)
  show ?case by (simp add: handleReset_def INITIAL_ELEMENTS_def)
qed

text \<open>
  Claim C3, as the code has it. \<open>handleUpdateElement\<close> stores the value it is given, unchanged, and
  \<open>calculatePosition\<close> evaluates every record: neither rejects nor clamps. The domain is kept by
  the ranges of the sliders, \<open>4 \<le> a \<le> 15\<close> and \<open>0 \<le> e \<le> 0.85\<close>: every record reached from the
  initial one by slider changes within those ranges and by resets stays in them, and on every
  record with \<open>0 \<le> e < 1\<close> the divisor of the conic equation is not zero.
\<close>

theorem reachable_elements_valid:
  "(reachable elements \<longrightarrow>
      4 \<le> a elements \<and> a elements \<le> 15 \<and> 0 \<le> e elements \<and> e elements \<le> 0.85
      \<and> 1 + e elements * cos (case anomaly of Some t \<Rightarrow> t | None \<Rightarrow> nu elements) \<noteq> 0
      \<and> calculatePosition elements anomaly \<noteq> None)
   \<and> (0 \<le> e elements \<and> e elements < 1 \<longrightarrow>
        1 + e elements * cos (case anomaly of Some t \<Rightarrow> t | None \<Rightarrow> nu elements) \<noteq> 0
        \<and> calculatePosition elements anomaly \<noteq> None)
   \<and> handleUpdateElement E v elements = elements\<lparr>e := v\<rparr>
   \<and> handleUpdateElement A v elements = elements\<lparr>a := v\<rparr>"
proof -
  have valid: "1 + e elements * cos (case anomaly of Some t \<Rightarrow> t | None \<Rightarrow> nu elements) \<noteq> 0
        \<and> calculatePosition elements anomaly \<noteq> None" if "0 \<le> e elements" "e elements < 1"
    using conic_denominator_pos [OF that, of "case anomaly of Some t \<Rightarrow> t | None \<Rightarrow> nu elements"]
      calculatePosition_valid [OF that, of anomaly]
    by simp
  have "0 \<le> e elements \<and> e elements < 1" if "reachable elements"
    using reachable_domain [OF that] by simp
  then show ?thesis
    using valid reachable_domain [of elements] by auto
qed

theorem reachable_elements_valid_witness:
  "reachable (slider_onChange E 0.85 INITIAL_ELEMENTS)
   \<and> 0 \<le> e (slider_onChange E 0.85 INITIAL_ELEMENTS)
   \<and> e (slider_onChange E 0.85 INITIAL_ELEMENTS) < 1
   \<and> e (slider_onChange E 0.85 INITIAL_ELEMENTS) = 0.85
   \<and> calculatePosition (slider_onChange E 0.85 INITIAL_ELEMENTS) (Some pi) \<noteq> None"
proof -
  have "reachable (slider_onChange E 0.85 INITIAL_ELEMENTS)"
    by (rule reachable.update [OF reachable.init]) simp_all
  then show ?thesis
    using reachable_elements_valid [of "slider_onChange E 0.85 INITIAL_ELEMENTS" "Some pi"]
    by simp
qed

text \<open>
  A field update with \<open>e = 1\<close> is stored as it is, and the position at anomaly \<open>\<pi>\<close> then divides
  by zero; an update with \<open>a = -3\<close> is stored as well and a position is computed from it.
\<close>

theorem handleUpdateElement_unguarded_counterexample:
  "e (handleUpdateElement E 1 INITIAL_ELEMENTS) = 1
   \<and> calculatePosition (handleUpdateElement E 1 INITIAL_ELEMENTS) (Some pi) = None
   \<and> a (handleUpdateElement A (- 3) INITIAL_ELEMENTS) = - 3
   \<and> calculatePosition (handleUpdateElement A (- 3) INITIAL_ELEMENTS) (Some 0) \<noteq> None"
  by (simp add: calculatePosition_def js_div_def INITIAL_ELEMENTS_def)

end
